theory Spec2Isabelle
  imports Complex_Main
begin

section \<open>JavaScript numbers\<close>

text \<open>
  The scheduler computes with JavaScript numbers. A finite number is idealised as a real
  (no binary rounding, no overflow or underflow, and no sign on zero: a zero is read as
  \<open>+0\<close>); the three special values of IEEE arithmetic are kept, because a division by
  zero in the source does not raise: it yields \<open>Infinity\<close>, \<open>-Infinity\<close> or
  \<open>NaN\<close>, which then flows into the output.
\<close>

datatype jsnum = Num real | PosInf | NegInf | NaN

text \<open>The infinity (or \<open>NaN\<close>) a product or quotient of the given sign overflows to.\<close>

definition infinity_of_sign :: "real \<Rightarrow> jsnum" where
  "infinity_of_sign s = (if s = 0 then NaN else if 0 < s then PosInf else NegInf)"

fun signum :: "jsnum \<Rightarrow> real" where
  "signum (Num a) = sgn a"
| "signum PosInf = 1"
| "signum NegInf = - 1"
| "signum NaN = 0"

text \<open>\<open>x * y\<close>: \<open>Infinity * 0\<close> is \<open>NaN\<close>.\<close>

fun jmul :: "jsnum \<Rightarrow> jsnum \<Rightarrow> jsnum" where
  "jmul (Num a) (Num b) = Num (a * b)"
| "jmul NaN y = NaN"
| "jmul x NaN = NaN"
| "jmul x y = infinity_of_sign (signum x * signum y)"

text \<open>
  \<open>x / y\<close>: a non-zero finite number over zero is an infinity of the numerator's sign,
  \<open>0 / 0\<close> and \<open>Infinity / Infinity\<close> are \<open>NaN\<close>, finite over infinite is zero.
\<close>

fun jdiv :: "jsnum \<Rightarrow> jsnum \<Rightarrow> jsnum" where
  "jdiv (Num a) (Num b) = (if b = 0 then infinity_of_sign (sgn a) else Num (a / b))"
| "jdiv NaN y = NaN"
| "jdiv x NaN = NaN"
| "jdiv (Num a) y = Num 0"
| "jdiv x (Num b) = infinity_of_sign (signum x * (if b < 0 then - 1 else 1))"
| "jdiv x y = NaN"

text \<open>\<open>x + y\<close>: \<open>Infinity + -Infinity\<close> is \<open>NaN\<close>.\<close>

fun jadd :: "jsnum \<Rightarrow> jsnum \<Rightarrow> jsnum" where
  "jadd (Num a) (Num b) = Num (a + b)"
| "jadd NaN y = NaN"
| "jadd x NaN = NaN"
| "jadd PosInf NegInf = NaN"
| "jadd NegInf PosInf = NaN"
| "jadd (Num a) y = y"
| "jadd x y = x"

text \<open>\<open>x < y\<close> and \<open>x <= y\<close>: every comparison with \<open>NaN\<close> is false.\<close>

fun jlt :: "jsnum \<Rightarrow> jsnum \<Rightarrow> bool" where
  "jlt (Num a) (Num b) = (a < b)"
| "jlt NaN y = False"
| "jlt x NaN = False"
| "jlt PosInf y = False"
| "jlt x PosInf = True"
| "jlt x NegInf = False"
| "jlt NegInf y = True"

fun jle :: "jsnum \<Rightarrow> jsnum \<Rightarrow> bool" where
  "jle (Num a) (Num b) = (a \<le> b)"
| "jle NaN y = False"
| "jle x NaN = False"
| "jle NegInf y = True"
| "jle x PosInf = True"
| "jle x y = False"

text \<open>\<open>Math.min(x, y)\<close>: \<open>NaN\<close> when either argument is.\<close>

fun jmin :: "jsnum \<Rightarrow> jsnum \<Rightarrow> jsnum" where
  "jmin NaN y = NaN"
| "jmin x NaN = NaN"
| "jmin x y = (if jle x y then x else y)"

text \<open>\<open>Math.round\<close> rounds to the nearest integer, a tie towards \<open>+Infinity\<close>.\<close>

fun jround :: "jsnum \<Rightarrow> jsnum" where
  "jround (Num a) = Num (of_int \<lfloor>a + 1 / 2\<rfloor>)"
| "jround x = x"

text \<open>\<open>Math.ceil\<close>.\<close>

fun jceil :: "jsnum \<Rightarrow> jsnum" where
  "jceil (Num a) = Num (of_int \<lceil>a\<rceil>)"
| "jceil x = x"


section \<open>Date-times\<close>

text \<open>
  The date-time library (dayjs) is an external collaborator. A valid date-time is an
  instant on the caller's local time line, counted in minutes (a real, so that a
  fractional number of minutes can be subtracted); a day is 1440 minutes and starts at a
  multiple of 1440. Subtracting or adding a non-finite number of minutes gives the
  library's invalid date.
\<close>

type_synonym instant = real

datatype dayjs = Instant instant | InvalidDate

text \<open>\<open>t.subtract(x, 'minute')\<close> and \<open>t.add(x, 'minute')\<close>.\<close>

fun subtract_minute :: "dayjs \<Rightarrow> jsnum \<Rightarrow> dayjs" where
  "subtract_minute (Instant t) (Num x) = Instant (t - x)"
| "subtract_minute t x = InvalidDate"

fun add_minute :: "dayjs \<Rightarrow> jsnum \<Rightarrow> dayjs" where
  "add_minute (Instant t) (Num x) = Instant (t + x)"
| "add_minute t x = InvalidDate"

text \<open>\<open>a.isBefore(b)\<close> and \<open>a.isSame(b)\<close>: false when either date is invalid.\<close>

fun isBefore :: "dayjs \<Rightarrow> dayjs \<Rightarrow> bool" where
  "isBefore (Instant a) (Instant b) = (a < b)"
| "isBefore a b = False"

fun isSame :: "dayjs \<Rightarrow> dayjs \<Rightarrow> bool" where
  "isSame (Instant a) (Instant b) = (a = b)"
| "isSame a b = False"

text \<open>
  The setters \<open>t.hour(h)\<close>, \<open>t.minute(m)\<close> and \<open>t.second(s)\<close> replace one field of
  the local time of day and keep the others.
\<close>

definition startOfDay :: "instant \<Rightarrow> instant" where
  "startOfDay t = 1440 * of_int \<lfloor>t / 1440\<rfloor>"

definition hourOf :: "instant \<Rightarrow> int" where
  "hourOf t = \<lfloor>(t - startOfDay t) / 60\<rfloor>"

definition minuteOf :: "instant \<Rightarrow> int" where
  "minuteOf t = \<lfloor>t - startOfDay t - 60 * of_int (hourOf t)\<rfloor>"

definition secondOf :: "instant \<Rightarrow> int" where
  "secondOf t = \<lfloor>(t - startOfDay t - 60 * of_int (hourOf t) - of_int (minuteOf t)) * 60\<rfloor>"

definition set_hour :: "instant \<Rightarrow> int \<Rightarrow> instant" where
  "set_hour t h = t + 60 * (of_int h - of_int (hourOf t))"

definition set_minute :: "instant \<Rightarrow> int \<Rightarrow> instant" where
  "set_minute t m = t + (of_int m - of_int (minuteOf t))"

definition set_second :: "instant \<Rightarrow> int \<Rightarrow> instant" where
  "set_second t s = t + (of_int s - of_int (secondOf t)) / 60"

section \<open>Data model\<close>

text \<open>
  The records of the models file. The inputs (zone and weather) carry finite numbers and
  valid dates; an optional field is an \<open>option\<close>. The outputs carry JavaScript numbers
  and date-times, since they are computed.
\<close>

record grassType =
  name_grass :: string
  cropCoefficient :: real

record soilType =
  name_soil :: string
  availableWaterHoldingCapacityMmPerM :: real
  infiltrationRateMmPerHr :: real

record zone =
  id_zone :: string
  name_zone :: string
  grassType :: grassType
  soil :: soilType
  rootDepthM :: real
  allowableDepletionFraction :: real
  irrigationEfficiency :: real
  flowRateLPerMin :: real
  areaM2 :: real
  precipitationRateMmPerHr :: "real option"
  currentDepletionMm :: "real option"
  isEnabled :: "bool option"
  location :: "(real \<times> real) option"

record dailyWeather =
  date :: instant
  evapotranspirationMmPerDay :: "real option"
  rainfallMm :: "real option"
  sunrise :: "instant option"

record irrigationCycle =
  startTime :: dayjs
  durationMin :: jsnum

record irrigationScheduleEntry =
  date_entry :: dayjs
  zoneId :: string
  cycles :: "irrigationCycle list"
  appliedDepthMm :: jsnum
  depletionBeforeMm :: jsnum
  depletionAfterMm :: jsnum

section \<open>Helpers of the scheduler\<close>

definition roundTo1Decimal :: "jsnum \<Rightarrow> jsnum" where
  "roundTo1Decimal v = jdiv (jround (jmul v (Num 10))) (Num 10)"

definition clampValue :: "real \<Rightarrow> real \<Rightarrow> real \<Rightarrow> real" where
  "clampValue v mn mx = max mn (min mx v)"

definition estimateSoakMinutes :: "real \<Rightarrow> real" where
  "estimateSoakMinutes infiltrationRateMmHr =
     (if 20 \<le> infiltrationRateMmHr then 15
      else if 12 \<le> infiltrationRateMmHr then 25
      else if 8 \<le> infiltrationRateMmHr then 35
      else if 5 \<le> infiltrationRateMmHr then 45
      else 60)"

section \<open>The cycle planner\<close>

text \<open>
  The loop of \<open>buildCyclePlan\<close>: \<open>for (let i = 0; i < numberOfCycles; i++)\<close>, with the
  running offset \<open>totalMinutesBeforeSunrise\<close> and the list \<open>cyclesInReverse\<close>. The
  bound is a JavaScript number: the loop never exits when it is \<open>Infinity\<close>, which is
  the value \<open>None\<close> here.
\<close>

partial_function (option) cycleLoop ::
  "nat \<Rightarrow> jsnum \<Rightarrow> jsnum \<Rightarrow> dayjs \<Rightarrow> jsnum \<Rightarrow> jsnum \<Rightarrow> irrigationCycle list
    \<Rightarrow> irrigationCycle list option" where
  "cycleLoop i numberOfCycles perCycleMinutes sunriseTime soakTimeMinutes
      totalMinutesBeforeSunrise cyclesInReverse =
     (if jlt (Num (real i)) numberOfCycles then
        cycleLoop (Suc i) numberOfCycles perCycleMinutes sunriseTime soakTimeMinutes
          (jadd (jadd totalMinutesBeforeSunrise perCycleMinutes) soakTimeMinutes)
          (cyclesInReverse @
            [\<lparr>startTime =
                subtract_minute sunriseTime (jadd totalMinutesBeforeSunrise perCycleMinutes),
              durationMin = roundTo1Decimal perCycleMinutes\<rparr>])
      else Some cyclesInReverse)"

definition buildCyclePlan ::
  "jsnum \<Rightarrow> jsnum \<Rightarrow> dayjs \<Rightarrow> jsnum \<Rightarrow> irrigationCycle list option" where
  "buildCyclePlan totalRunTimeMinutes maximumCycleMinutes sunriseTime soakTimeMinutes =
     (if jle totalRunTimeMinutes (Num 0) then Some []
      else if jle maximumCycleMinutes (Num 0) \<or> jle totalRunTimeMinutes maximumCycleMinutes
      then Some [\<lparr>startTime = subtract_minute sunriseTime totalRunTimeMinutes,
                  durationMin = roundTo1Decimal totalRunTimeMinutes\<rparr>]
      else
        let numberOfCycles = jceil (jdiv totalRunTimeMinutes maximumCycleMinutes);
            perCycleMinutes = jdiv totalRunTimeMinutes numberOfCycles
        in map_option rev
             (cycleLoop 0 numberOfCycles perCycleMinutes sunriseTime soakTimeMinutes (Num 0) []))"

section \<open>The water balance driver\<close>

text \<open>The constants \<open>planZoneSchedule\<close> computes once per call.\<close>

definition totalAvailableWaterMillimeters :: "zone \<Rightarrow> real" where
  "totalAvailableWaterMillimeters z =
     availableWaterHoldingCapacityMmPerM (soil z) * rootDepthM z"

definition readilyAvailableWaterMillimeters :: "zone \<Rightarrow> real" where
  "readilyAvailableWaterMillimeters z =
     allowableDepletionFraction z * totalAvailableWaterMillimeters z"

definition precipitationRateMillimetersPerHour :: "zone \<Rightarrow> jsnum" where
  "precipitationRateMillimetersPerHour z =
     (case precipitationRateMmPerHr z of
        Some r \<Rightarrow> Num r
      | None \<Rightarrow> jmul (Num 60) (jdiv (Num (flowRateLPerMin z)) (Num (areaM2 z))))"

definition soakTimeMinutes :: "zone \<Rightarrow> real" where
  "soakTimeMinutes z = estimateSoakMinutes (infiltrationRateMmPerHr (soil z))"

definition initialDepletionMillimeters :: "zone \<Rightarrow> real" where
  "initialDepletionMillimeters z =
     clampValue (case currentDepletionMm z of Some d \<Rightarrow> d | None \<Rightarrow> 0) 0
       (totalAvailableWaterMillimeters z)"

text \<open>The constants of one day of the loop over the weather history.\<close>

definition resolvedSunrise :: "dailyWeather \<Rightarrow> instant" where
  "resolvedSunrise w =
     (case sunrise w of
        Some s \<Rightarrow> s
      | None \<Rightarrow> set_second (set_minute (set_hour (date w) 6) 0) 0)"

definition referenceEvapotranspiration :: "dailyWeather \<Rightarrow> real" where
  "referenceEvapotranspiration w =
     max 0 (case evapotranspirationMmPerDay w of Some e \<Rightarrow> e | None \<Rightarrow> 0)"

definition cropEvapotranspiration :: "zone \<Rightarrow> dailyWeather \<Rightarrow> real" where
  "cropEvapotranspiration z w =
     cropCoefficient (grassType z) * referenceEvapotranspiration w"

definition rainfallMillimeters :: "dailyWeather \<Rightarrow> real" where
  "rainfallMillimeters w = (case rainfallMm w of Some r \<Rightarrow> r | None \<Rightarrow> 0)"

definition effectiveRainfallMillimeters :: "dailyWeather \<Rightarrow> real" where
  "effectiveRainfallMillimeters w =
     (if rainfallMillimeters w < 2 then 0 else 0.8 * rainfallMillimeters w)"

text \<open>
  The first assignment of the day to \<open>currentDepletionMillimeters\<close>: the depletion
  advanced by the day's evapotranspiration and rain.
\<close>

definition advancedDepletion :: "zone \<Rightarrow> real \<Rightarrow> dailyWeather \<Rightarrow> real" where
  "advancedDepletion z currentDepletionMillimeters w =
     clampValue
       (currentDepletionMillimeters + cropEvapotranspiration z w
          - effectiveRainfallMillimeters w)
       0 (totalAvailableWaterMillimeters z)"

text \<open>The constants of an irrigation event, from the depletion that triggered it.\<close>

definition grossIrrigationDepthMillimeters :: "zone \<Rightarrow> real \<Rightarrow> jsnum" where
  "grossIrrigationDepthMillimeters z netIrrigationDepthMillimeters =
     jmin (jdiv (Num netIrrigationDepthMillimeters) (Num (irrigationEfficiency z)))
       (Num (totalAvailableWaterMillimeters z))"

definition totalRunTimeMinutes :: "zone \<Rightarrow> real \<Rightarrow> jsnum" where
  "totalRunTimeMinutes z d =
     jmul (jdiv (grossIrrigationDepthMillimeters z d)
             (precipitationRateMillimetersPerHour z)) (Num 60)"

definition maximumCycleMinutes :: "zone \<Rightarrow> real \<Rightarrow> jsnum" where
  "maximumCycleMinutes z d =
     (if 0 < infiltrationRateMmPerHr (soil z)
      then jmul (jdiv (Num (infiltrationRateMmPerHr (soil z)))
                   (precipitationRateMillimetersPerHour z)) (Num 60)
      else totalRunTimeMinutes z d)"

text \<open>
  The body of the loop over the weather history, on the state it updates: the running
  depletion and the schedule built so far.
\<close>

definition processWeatherDay ::
  "zone \<Rightarrow> real \<times> irrigationScheduleEntry list \<Rightarrow> dailyWeather
    \<Rightarrow> (real \<times> irrigationScheduleEntry list) option" where
  "processWeatherDay z st w =
     (let currentDepletionMillimeters = advancedDepletion z (fst st) w
      in if readilyAvailableWaterMillimeters z \<le> currentDepletionMillimeters then
           (case buildCyclePlan (totalRunTimeMinutes z currentDepletionMillimeters)
                   (maximumCycleMinutes z currentDepletionMillimeters)
                   (Instant (resolvedSunrise w)) (Num (soakTimeMinutes z)) of
              None \<Rightarrow> None
            | Some cycleList \<Rightarrow>
                Some
                  (clampValue
                     (clampValue
                        (0 + cropEvapotranspiration z w - effectiveRainfallMillimeters w)
                        0 (totalAvailableWaterMillimeters z))
                     0 (totalAvailableWaterMillimeters z),
                   snd st @
                     [\<lparr>date_entry = Instant (date w),
                       zoneId = id_zone z,
                       cycles = cycleList,
                       appliedDepthMm =
                         roundTo1Decimal
                           (grossIrrigationDepthMillimeters z currentDepletionMillimeters),
                       depletionBeforeMm = roundTo1Decimal (Num currentDepletionMillimeters),
                       depletionAfterMm = roundTo1Decimal (Num 0)\<rparr>]))
         else
           Some
             (clampValue currentDepletionMillimeters 0 (totalAvailableWaterMillimeters z),
              snd st))"

fun weatherLoop ::
  "zone \<Rightarrow> real \<times> irrigationScheduleEntry list \<Rightarrow> dailyWeather list
    \<Rightarrow> (real \<times> irrigationScheduleEntry list) option" where
  "weatherLoop z st [] = Some st"
| "weatherLoop z st (w # ws) =
     (case processWeatherDay z st w of
        None \<Rightarrow> None
      | Some st' \<Rightarrow> weatherLoop z st' ws)"

definition planZoneSchedule ::
  "zone \<Rightarrow> dailyWeather list \<Rightarrow> irrigationScheduleEntry list option" where
  "planZoneSchedule z weatherHistory =
     (if isEnabled z = Some False then Some []
      else map_option snd (weatherLoop z (initialDepletionMillimeters z, []) weatherHistory))"

declare cycleLoop.simps [code]

section \<open>Test fixtures\<close>

text \<open>
  The builders of the mock zone and weather modules, which the test suite and the seed
  scenarios start from. \<open>createTestZone\<close> is the default zone; an override is a record
  update. \<open>createWeatherDay\<close> is a day with the default evapotranspiration of 2 mm, no
  rain and sunrise at 06:00; \<open>createDryPeriod\<close> is a run of consecutive dry days.
  The builders default the first date to the current time; here it is an argument.
\<close>

definition createTestZone :: zone where
  "createTestZone =
     \<lparr>id_zone = ''test-zone-001'',
      name_zone = ''Test Zone'',
      grassType = \<lparr>name_grass = ''Kentucky Bluegrass'', cropCoefficient = 0.85\<rparr>,
      soil = \<lparr>name_soil = ''Loam'', availableWaterHoldingCapacityMmPerM = 150,
               infiltrationRateMmPerHr = 25\<rparr>,
      rootDepthM = 0.3,
      allowableDepletionFraction = 0.5,
      irrigationEfficiency = 0.8,
      flowRateLPerMin = 15,
      areaM2 = 100,
      precipitationRateMmPerHr = Some 9,
      currentDepletionMm = Some 0,
      isEnabled = Some True,
      location = Some (51.0447, - 114.0719)\<rparr>"

definition createWeatherDay :: "instant \<Rightarrow> dailyWeather" where
  "createWeatherDay d =
     \<lparr>date = d,
      evapotranspirationMmPerDay = Some 2.0,
      rainfallMm = Some 0,
      sunrise = Some (set_second (set_minute (set_hour d 6) 0) 0)\<rparr>"

definition createDryPeriod :: "nat \<Rightarrow> real \<Rightarrow> instant \<Rightarrow> dailyWeather list" where
  "createDryPeriod days etPerDay startDate =
     map (\<lambda>i. (createWeatherDay (startDate + 1440 * real i))
                 \<lparr>evapotranspirationMmPerDay := Some etPerDay, rainfallMm := Some 0\<rparr>)
       [0..<days]"

section \<open>Notions used in the statements\<close>


text \<open>
  An entry as the driver emits it on day \<open>w\<close>: built from a depletion \<open>d\<close> that is
  within the clamp's range and has reached the trigger threshold, with the cycles the
  planner returned for it.
\<close>

definition emittedFor :: "zone \<Rightarrow> dailyWeather \<Rightarrow> irrigationScheduleEntry \<Rightarrow> bool" where
  "emittedFor z w e \<longleftrightarrow>
     (\<exists>d cs. 0 \<le> d \<and> d \<le> max 0 (totalAvailableWaterMillimeters z) \<and>
        readilyAvailableWaterMillimeters z \<le> d \<and>
        buildCyclePlan (totalRunTimeMinutes z d) (maximumCycleMinutes z d)
          (Instant (resolvedSunrise w)) (Num (soakTimeMinutes z)) = Some cs \<and>
        e = \<lparr>date_entry = Instant (date w), zoneId = id_zone z, cycles = cs,
              appliedDepthMm = roundTo1Decimal (grossIrrigationDepthMillimeters z d),
              depletionBeforeMm = roundTo1Decimal (Num d),
              depletionAfterMm = roundTo1Decimal (Num 0)\<rparr>)"

text \<open>
  Rounding half away from zero, as the specification words it, and the one-decimal
  rounding built on it (the special values are left as they are).
\<close>

definition roundHalfAwayFromZero :: "real \<Rightarrow> int" where
  "roundHalfAwayFromZero x = (if 0 \<le> x then \<lfloor>x + 1 / 2\<rfloor> else - \<lfloor>- x + 1 / 2\<rfloor>)"

definition roundedHalfAwayTo1Decimal :: "jsnum \<Rightarrow> jsnum" where
  "roundedHalfAwayTo1Decimal v =
     (case v of Num x \<Rightarrow> Num (of_int (roundHalfAwayFromZero (x * 10)) / 10) | _ \<Rightarrow> v)"



section \<open>The cycle planner: lemmas\<close>

lemma roundTo1Decimal_Num: "roundTo1Decimal (Num v) = Num (of_int \<lfloor>v * 10 + 1 / 2\<rfloor> / 10)"
  by (simp add: roundTo1Decimal_def)

lemma cycleLoop_exit:
  "\<not> jlt (Num (real i)) n \<Longrightarrow> cycleLoop i n d s k tot acc = Some acc"
  by (subst cycleLoop.simps) simp

lemma cycleLoop_step:
  "jlt (Num (real i)) n \<Longrightarrow>
   cycleLoop i n d s k tot acc =
     cycleLoop (Suc i) n d s k (jadd (jadd tot d) k)
       (acc @ [\<lparr>startTime = subtract_minute s (jadd tot d), durationMin = roundTo1Decimal d\<rparr>])"
  by (subst cycleLoop.simps) simp


lemma cycleLoop_total:
  "n \<noteq> PosInf \<Longrightarrow> \<exists>cs. cycleLoop i n d s k tot acc = Some cs"
proof (cases n)
  case (Num r)
  show ?thesis unfolding Num
  proof (induction "nat \<lceil>r\<rceil> - i" arbitrary: i tot acc)
    case 0
    then have "\<not> real i < r" by linarith
    then show ?case by (simp add: cycleLoop_exit)
  next
    case (Suc m)
    show ?case
    proof (cases "real i < r")
      case True
      have "m = nat \<lceil>r\<rceil> - Suc i" using Suc.hyps(2) by simp
      from Suc.hyps(1) [OF this] show ?thesis using True by (subst cycleLoop_step) simp_all
    next
      case False
      then show ?thesis by (simp add: cycleLoop_exit)
    qed
  qed
qed (simp_all add: cycleLoop_exit)



section \<open>The planner returns on every run the driver asks for\<close>

lemma clampValue_lower: "0 \<le> clampValue v 0 t"
  by (simp add: clampValue_def)

lemma clampValue_upper: "0 \<le> t \<Longrightarrow> clampValue v 0 t \<le> t"
  by (simp add: clampValue_def)

lemma jceil_PosInf: "jceil x = PosInf \<Longrightarrow> x = PosInf"
  by (cases x) simp_all

lemma buildCyclePlan_returns:
  assumes "\<not> (T = PosInf \<and> (\<exists>m>0. M = Num m))"
  shows "\<exists>cs. buildCyclePlan T M S K = Some cs"
proof (cases "jle T (Num 0) \<or> jle M (Num 0) \<or> jle T M")
  case True
  then show ?thesis by (auto simp add: buildCyclePlan_def)
next
  case False
  have "jdiv T M \<noteq> PosInf"
    using False assms
    by (cases T; cases M) (auto simp add: infinity_of_sign_def split: if_splits)
  then have "jceil (jdiv T M) \<noteq> PosInf" using jceil_PosInf by blast
  from cycleLoop_total [OF this]
  obtain cs where "cycleLoop 0 (jceil (jdiv T M)) (jdiv T (jceil (jdiv T M))) S K (Num 0) [] = Some cs"
    by blast
  then show ?thesis using False by (simp add: buildCyclePlan_def Let_def)
qed

lemma jmin_Num_not_PosInf: "jmin x (Num t) \<noteq> PosInf"
  by (cases x) simp_all

lemma jmul_60_PosInf: "jmul x (Num 60) = PosInf \<Longrightarrow> x = PosInf"
  by (cases x) (simp_all add: infinity_of_sign_def split: if_splits)

lemma jdiv_pos_PosInf: "0 < r \<Longrightarrow> jdiv g (Num r) = PosInf \<Longrightarrow> g = PosInf"
  by (cases g) (simp_all add: infinity_of_sign_def split: if_splits)

lemma maximum_positive_rate:
  assumes "0 < i" "jmul (jdiv (Num i) r) (Num 60) = Num m" "0 < m"
  shows "\<exists>p>0. r = Num p"
proof (cases r)
  case (Num p)
  show ?thesis
  proof (cases "p = 0")
    case True
    with assms Num show ?thesis by (simp add: infinity_of_sign_def)
  next
    case False
    with assms Num have "0 < i * 60 / p" by auto
    with assms(1) have "0 < p" by (simp add: zero_less_divide_iff zero_less_mult_iff)
    with Num show ?thesis by simp
  qed
qed (use assms in simp_all)

lemma planned_run_returns:
  "\<not> (totalRunTimeMinutes z d = PosInf \<and> (\<exists>m>0. maximumCycleMinutes z d = Num m))"
proof
  assume a: "totalRunTimeMinutes z d = PosInf \<and> (\<exists>m>0. maximumCycleMinutes z d = Num m)"
  then obtain m where m: "0 < m" "maximumCycleMinutes z d = Num m" by blast
  show False
  proof (cases "0 < infiltrationRateMmPerHr (soil z)")
    case True
    with m maximum_positive_rate obtain p where p: "0 < p" "precipitationRateMillimetersPerHour z = Num p"
      unfolding maximumCycleMinutes_def by (metis (full_types))
    from a have "jdiv (grossIrrigationDepthMillimeters z d) (Num p) = PosInf"
      unfolding totalRunTimeMinutes_def p by (simp add: jmul_60_PosInf)
    then have "grossIrrigationDepthMillimeters z d = PosInf" using p(1) jdiv_pos_PosInf by blast
    then show False by (simp add: grossIrrigationDepthMillimeters_def jmin_Num_not_PosInf)
  next
    case False
    with a m show False by (simp add: maximumCycleMinutes_def)
  qed
qed

lemma processWeatherDay_returns:
  "\<exists>d' cs. processWeatherDay z (d, sch) w =
     Some (d',
       if readilyAvailableWaterMillimeters z \<le> advancedDepletion z d w then
         sch @ [\<lparr>date_entry = Instant (date w), zoneId = id_zone z, cycles = cs,
                  appliedDepthMm =
                    roundTo1Decimal (grossIrrigationDepthMillimeters z (advancedDepletion z d w)),
                  depletionBeforeMm = roundTo1Decimal (Num (advancedDepletion z d w)),
                  depletionAfterMm = roundTo1Decimal (Num 0)\<rparr>]
       else sch) \<and>
     0 \<le> d' \<and> (0 \<le> totalAvailableWaterMillimeters z \<longrightarrow> d' \<le> totalAvailableWaterMillimeters z) \<and>
     (readilyAvailableWaterMillimeters z \<le> advancedDepletion z d w \<longrightarrow>
        buildCyclePlan (totalRunTimeMinutes z (advancedDepletion z d w))
          (maximumCycleMinutes z (advancedDepletion z d w))
          (Instant (resolvedSunrise w)) (Num (soakTimeMinutes z)) = Some cs)"
proof (cases "readilyAvailableWaterMillimeters z \<le> advancedDepletion z d w")
  case True
  from buildCyclePlan_returns [OF planned_run_returns]
  obtain cs where "buildCyclePlan (totalRunTimeMinutes z (advancedDepletion z d w))
          (maximumCycleMinutes z (advancedDepletion z d w))
          (Instant (resolvedSunrise w)) (Num (soakTimeMinutes z)) = Some cs" by blast
  with True show ?thesis
    by (simp add: processWeatherDay_def Let_def clampValue_lower clampValue_upper)
next
  case False
  then show ?thesis
    by (simp add: processWeatherDay_def Let_def clampValue_lower clampValue_upper)
qed

section \<open>What the driver emits\<close>

lemma advancedDepletion_lower: "0 \<le> advancedDepletion z d w"
  by (simp add: advancedDepletion_def clampValue_lower)

lemma advancedDepletion_upper: "advancedDepletion z d w \<le> max 0 (totalAvailableWaterMillimeters z)"
  by (simp add: advancedDepletion_def clampValue_def)

lemma processWeatherDay_emits:
  "\<exists>d' new. processWeatherDay z (d, sch) w = Some (d', sch @ new) \<and>
     0 \<le> d' \<and> d' \<le> max 0 (totalAvailableWaterMillimeters z) \<and>
     (\<forall>e\<in>set new. emittedFor z w e) \<and>
     (new \<noteq> [] \<longleftrightarrow> readilyAvailableWaterMillimeters z \<le> advancedDepletion z d w)"
proof -
  from processWeatherDay_returns [of z d sch w]
  obtain d' cs where step: "processWeatherDay z (d, sch) w =
     Some (d',
       if readilyAvailableWaterMillimeters z \<le> advancedDepletion z d w then
         sch @ [\<lparr>date_entry = Instant (date w), zoneId = id_zone z, cycles = cs,
                  appliedDepthMm =
                    roundTo1Decimal (grossIrrigationDepthMillimeters z (advancedDepletion z d w)),
                  depletionBeforeMm = roundTo1Decimal (Num (advancedDepletion z d w)),
                  depletionAfterMm = roundTo1Decimal (Num 0)\<rparr>]
       else sch)"
    and lo: "0 \<le> d'"
    and hi: "0 \<le> totalAvailableWaterMillimeters z \<longrightarrow> d' \<le> totalAvailableWaterMillimeters z"
    and plan: "readilyAvailableWaterMillimeters z \<le> advancedDepletion z d w \<longrightarrow>
        buildCyclePlan (totalRunTimeMinutes z (advancedDepletion z d w))
          (maximumCycleMinutes z (advancedDepletion z d w))
          (Instant (resolvedSunrise w)) (Num (soakTimeMinutes z)) = Some cs"
    by blast
  have hi': "d' \<le> max 0 (totalAvailableWaterMillimeters z)"
  proof (cases "0 \<le> totalAvailableWaterMillimeters z")
    case True
    with hi show ?thesis by simp
  next
    case False
    from step have "d' = 0"
      using False by (auto simp add: processWeatherDay_def Let_def clampValue_def split: if_splits option.splits)
    then show ?thesis by simp
  qed
  show ?thesis
  proof (cases "readilyAvailableWaterMillimeters z \<le> advancedDepletion z d w")
    case True
    let ?e = "\<lparr>date_entry = Instant (date w), zoneId = id_zone z, cycles = cs,
                  appliedDepthMm =
                    roundTo1Decimal (grossIrrigationDepthMillimeters z (advancedDepletion z d w)),
                  depletionBeforeMm = roundTo1Decimal (Num (advancedDepletion z d w)),
                  depletionAfterMm = roundTo1Decimal (Num 0)\<rparr>"
    have "emittedFor z w ?e"
      unfolding emittedFor_def
      using True plan advancedDepletion_lower [of z d w] advancedDepletion_upper [of z d w]
      by blast
    with True step lo hi' show ?thesis
      by (intro exI [of _ d'] exI [of _ "[?e]"]) simp
  next
    case False
    with step lo hi' show ?thesis
      by (intro exI [of _ d'] exI [of _ "[]"]) simp
  qed
qed

lemma weatherLoop_emits:
  "0 \<le> d \<Longrightarrow> d \<le> max 0 (totalAvailableWaterMillimeters z) \<Longrightarrow>
   \<exists>d' new. weatherLoop z (d, sch) ws = Some (d', sch @ new) \<and>
     0 \<le> d' \<and> d' \<le> max 0 (totalAvailableWaterMillimeters z) \<and>
     (\<forall>e\<in>set new. \<exists>w\<in>set ws. emittedFor z w e)"
proof (induction ws arbitrary: d sch)
  case Nil
  then show ?case by simp
next
  case (Cons w ws)
  from processWeatherDay_emits [of z d sch w]
  obtain d1 new1 where step: "processWeatherDay z (d, sch) w = Some (d1, sch @ new1)"
    and b1: "0 \<le> d1" "d1 \<le> max 0 (totalAvailableWaterMillimeters z)"
    and e1: "\<forall>e\<in>set new1. emittedFor z w e"
    by blast
  from Cons.IH [OF b1, of "sch @ new1"]
  obtain d2 new2 where rest: "weatherLoop z (d1, sch @ new1) ws = Some (d2, (sch @ new1) @ new2)"
    and b2: "0 \<le> d2" "d2 \<le> max 0 (totalAvailableWaterMillimeters z)"
    and e2: "\<forall>e\<in>set new2. \<exists>w\<in>set ws. emittedFor z w e"
    by blast
  have "weatherLoop z (d, sch) (w # ws) = Some (d2, sch @ (new1 @ new2))"
    using step rest by simp
  moreover have "\<forall>e\<in>set (new1 @ new2). \<exists>w'\<in>set (w # ws). emittedFor z w' e"
    using e1 e2 by auto
  ultimately show ?case using b2 by blast
qed

lemma initialDepletion_bounds:
  "0 \<le> initialDepletionMillimeters z"
  "initialDepletionMillimeters z \<le> max 0 (totalAvailableWaterMillimeters z)"
  by (simp_all add: initialDepletionMillimeters_def clampValue_def)

lemma runningDepletion_bounds:
  "\<exists>d es. weatherLoop z (initialDepletionMillimeters z, []) ws = Some (d, es) \<and>
     0 \<le> d \<and> d \<le> max 0 (totalAvailableWaterMillimeters z) \<and>
     (\<forall>e\<in>set es. \<exists>w\<in>set ws. emittedFor z w e)"
  using weatherLoop_emits [OF initialDepletion_bounds, of z "[]" ws] by simp

lemma planZoneSchedule_emits:
  "\<exists>es. planZoneSchedule z ws = Some es \<and> (\<forall>e\<in>set es. \<exists>w\<in>set ws. emittedFor z w e)"
proof (cases "isEnabled z = Some False")
  case True
  then show ?thesis by (simp add: planZoneSchedule_def)
next
  case False
  from runningDepletion_bounds [of z ws] obtain d es
    where "weatherLoop z (initialDepletionMillimeters z, []) ws = Some (d, es)"
      and "\<forall>e\<in>set es. \<exists>w\<in>set ws. emittedFor z w e" by blast
  with False show ?thesis by (simp add: planZoneSchedule_def)
qed

lemma emittedForE:
  assumes "emittedFor z w e"
  obtains d cs where "0 \<le> d" "d \<le> max 0 (totalAvailableWaterMillimeters z)"
    "readilyAvailableWaterMillimeters z \<le> d"
    "buildCyclePlan (totalRunTimeMinutes z d) (maximumCycleMinutes z d)
          (Instant (resolvedSunrise w)) (Num (soakTimeMinutes z)) = Some cs"
    "e = \<lparr>date_entry = Instant (date w), zoneId = id_zone z, cycles = cs,
              appliedDepthMm = roundTo1Decimal (grossIrrigationDepthMillimeters z d),
              depletionBeforeMm = roundTo1Decimal (Num d),
              depletionAfterMm = roundTo1Decimal (Num 0)\<rparr>"
proof -
  from assms obtain d cs where "0 \<le> d \<and> d \<le> max 0 (totalAvailableWaterMillimeters z) \<and>
        readilyAvailableWaterMillimeters z \<le> d \<and>
        buildCyclePlan (totalRunTimeMinutes z d) (maximumCycleMinutes z d)
          (Instant (resolvedSunrise w)) (Num (soakTimeMinutes z)) = Some cs \<and>
        e = \<lparr>date_entry = Instant (date w), zoneId = id_zone z, cycles = cs,
              appliedDepthMm = roundTo1Decimal (grossIrrigationDepthMillimeters z d),
              depletionBeforeMm = roundTo1Decimal (Num d),
              depletionAfterMm = roundTo1Decimal (Num 0)\<rparr>"
    unfolding emittedFor_def by (elim exE)
  then show ?thesis using that by (elim conjE)
qed

lemma gross_depth_finite:
  assumes "irrigationEfficiency z \<noteq> 0"
  shows "grossIrrigationDepthMillimeters z d =
           Num (min (d / irrigationEfficiency z) (totalAvailableWaterMillimeters z))"
  using assms by (simp add: grossIrrigationDepthMillimeters_def min_def)

lemma emitted_entry_shape:
  "\<exists>es. planZoneSchedule z ws = Some es \<and>
     (\<forall>e\<in>set es. \<exists>d.
        0 \<le> d \<and> d \<le> max 0 (totalAvailableWaterMillimeters z) \<and>
        readilyAvailableWaterMillimeters z \<le> d \<and>
        appliedDepthMm e = roundTo1Decimal (grossIrrigationDepthMillimeters z d) \<and>
        depletionBeforeMm e = roundTo1Decimal (Num d) \<and>
        depletionAfterMm e = roundTo1Decimal (Num 0) \<and>
        (\<exists>w\<in>set ws. date_entry e = Instant (date w) \<and>
           buildCyclePlan (totalRunTimeMinutes z d) (maximumCycleMinutes z d)
             (Instant (resolvedSunrise w)) (Num (soakTimeMinutes z)) = Some (cycles e)))"
proof -
  from planZoneSchedule_emits [of z ws] obtain es
    where plan: "planZoneSchedule z ws = Some es"
      and em: "\<forall>e\<in>set es. \<exists>w\<in>set ws. emittedFor z w e" by blast
  have "\<exists>d. 0 \<le> d \<and> d \<le> max 0 (totalAvailableWaterMillimeters z) \<and>
        readilyAvailableWaterMillimeters z \<le> d \<and>
        appliedDepthMm e = roundTo1Decimal (grossIrrigationDepthMillimeters z d) \<and>
        depletionBeforeMm e = roundTo1Decimal (Num d) \<and>
        depletionAfterMm e = roundTo1Decimal (Num 0) \<and>
        (\<exists>w\<in>set ws. date_entry e = Instant (date w) \<and>
           buildCyclePlan (totalRunTimeMinutes z d) (maximumCycleMinutes z d)
             (Instant (resolvedSunrise w)) (Num (soakTimeMinutes z)) = Some (cycles e))"
    if "e \<in> set es" for e
  proof -
    from em that obtain w where w: "w \<in> set ws" and "emittedFor z w e" by blast
    then obtain d cs where d: "0 \<le> d" "d \<le> max 0 (totalAvailableWaterMillimeters z)"
        "readilyAvailableWaterMillimeters z \<le> d"
      and plan: "buildCyclePlan (totalRunTimeMinutes z d) (maximumCycleMinutes z d)
          (Instant (resolvedSunrise w)) (Num (soakTimeMinutes z)) = Some cs"
      and shape: "e = \<lparr>date_entry = Instant (date w), zoneId = id_zone z, cycles = cs,
              appliedDepthMm = roundTo1Decimal (grossIrrigationDepthMillimeters z d),
              depletionBeforeMm = roundTo1Decimal (Num d),
              depletionAfterMm = roundTo1Decimal (Num 0)\<rparr>"
      by (elim emittedForE)
    have "appliedDepthMm e = roundTo1Decimal (grossIrrigationDepthMillimeters z d)"
      and "depletionBeforeMm e = roundTo1Decimal (Num d)"
      and "depletionAfterMm e = roundTo1Decimal (Num 0)"
      and "date_entry e = Instant (date w)" and "cycles e = cs"
      unfolding shape by simp_all
    with d plan w show ?thesis by (intro exI [of _ d]) auto
  qed
  with plan show ?thesis by blast
qed

section \<open>Rounding and finiteness\<close>



lemma roundTo1Decimal_near:
  "\<exists>v. roundTo1Decimal (Num d) = Num v \<and> d - 1 / 20 < v \<and> v \<le> d + 1 / 20"
proof -
  let ?n = "\<lfloor>d * 10 + 1 / 2\<rfloor>"
  have "of_int ?n \<le> d * 10 + 1 / 2" and "d * 10 + 1 / 2 < of_int ?n + 1"
    by linarith+
  then have "d - 1 / 20 < of_int ?n / 10 \<and> of_int ?n / 10 \<le> d + 1 / 20" by argo
  moreover have "roundTo1Decimal (Num d) = Num (of_int ?n / 10)" by (simp add: roundTo1Decimal_Num)
  ultimately show ?thesis by blast
qed

lemma roundTo1Decimal_zero: "roundTo1Decimal (Num 0) = Num 0"
  by (simp add: roundTo1Decimal_Num)






lemma math_round_is_not_half_away_on_negative_ties:
  "roundTo1Decimal (Num (- 0.25)) = Num (- 0.2) \<and>
   roundedHalfAwayTo1Decimal (Num (- 0.25)) = Num (- 0.3)"
  by (simp add: roundTo1Decimal_Num roundedHalfAwayTo1Decimal_def roundHalfAwayFromZero_def)

section \<open>Evaluating the fixtures\<close>

lemma six_am: "set_second (set_minute (set_hour (1440 * real i) 6) 0) 0 = 1440 * real i + 360"
proof -
  have s: "startOfDay (1440 * real i) = 1440 * real i" by (simp add: startOfDay_def)
  have h: "hourOf (1440 * real i) = 0" by (simp add: hourOf_def s)
  have t: "set_hour (1440 * real i) 6 = 1440 * real i + 360" by (simp add: set_hour_def h)
  have "\<lfloor>(1440 * real i + 360) / 1440\<rfloor> = int i" by (simp add: floor_eq_iff)
  then have s': "startOfDay (1440 * real i + 360) = 1440 * real i" by (simp add: startOfDay_def)
  have h': "hourOf (1440 * real i + 360) = 6" by (simp add: hourOf_def s')
  have m': "minuteOf (1440 * real i + 360) = 0" by (simp add: minuteOf_def s' h')
  have sec': "secondOf (1440 * real i + 360) = 0" by (simp add: secondOf_def s' h' m')
  show ?thesis by (simp add: t set_minute_def set_second_def m' sec')
qed

lemmas scheduler_defs =
  planZoneSchedule_def initialDepletionMillimeters_def processWeatherDay_def
  advancedDepletion_def cropEvapotranspiration_def referenceEvapotranspiration_def
  effectiveRainfallMillimeters_def rainfallMillimeters_def resolvedSunrise_def
  totalAvailableWaterMillimeters_def readilyAvailableWaterMillimeters_def
  precipitationRateMillimetersPerHour_def soakTimeMinutes_def estimateSoakMinutes_def
  grossIrrigationDepthMillimeters_def totalRunTimeMinutes_def maximumCycleMinutes_def
  buildCyclePlan_def roundTo1Decimal_def clampValue_def infinity_of_sign_def Let_def

lemma createWeatherDay_midnight:
  "createWeatherDay (1440 * real i) =
     \<lparr>date = 1440 * real i, evapotranspirationMmPerDay = Some 2, rainfallMm = Some 0,
      sunrise = Some (1440 * real i + 360)\<rparr>"
  by (simp add: createWeatherDay_def six_am)

lemma createDryPeriod_7:
  "createDryPeriod 7 et 0 =
     map (\<lambda>d. \<lparr>date = d, evapotranspirationMmPerDay = Some et, rainfallMm = Some 0,
                sunrise = Some (d + 360)\<rparr>) [0, 1440, 2880, 4320, 5760, 7200, 8640]"
proof -
  have "[0..<7] = [0, 1, 2, 3, 4, 5, 6]" by (simp add: upt_rec)
  then show ?thesis
    using createWeatherDay_midnight [of 0] createWeatherDay_midnight [of 1]
      createWeatherDay_midnight [of 2] createWeatherDay_midnight [of 3]
      createWeatherDay_midnight [of 4] createWeatherDay_midnight [of 5]
      createWeatherDay_midnight [of 6]
    by (simp add: createDryPeriod_def)
qed

lemma createWeatherDay_0:
  "createWeatherDay 0 =
     \<lparr>date = 0, evapotranspirationMmPerDay = Some 2, rainfallMm = Some 0, sunrise = Some 360\<rparr>"
  using createWeatherDay_midnight [of 0] by simp

lemmas fixture_simps =
  createWeatherDay_0 createTestZone_def scheduler_defs cycleLoop_step cycleLoop_exit

section \<open>The claims\<close>



text \<open>
  Claim C2. Every cycle of every emitted entry, started at its start time and run for
  its reported (one-decimal) duration, should end no later than the day's resolved
  sunrise. The planner places a cycle by its exact duration and reports the rounded one,
  so a duration that rounds up ends after sunrise. Here one cycle of exactly 93.75
  minutes is planned to end at the 06:00 sunrise (minute 360); it starts at minute
  266.25, is reported as 93.8 minutes, and so ends at minute 360.05: the test suite's
  check \<open>cycleEnd.isBefore(sunrise) || cycleEnd.isSame(sunrise)\<close> is false on it.
\<close>

theorem reported_cycle_end_after_sunrise:
  "planZoneSchedule
     (createTestZone
        \<lparr>soil := \<lparr>name_soil = ''Sealed'', availableWaterHoldingCapacityMmPerM = 100,
                  infiltrationRateMmPerHr = 0\<rparr>,
         rootDepthM := 1, irrigationEfficiency := 0.5,
         precipitationRateMmPerHr := Some 64, currentDepletionMm := Some 50\<rparr>)
     [(createWeatherDay 0)\<lparr>evapotranspirationMmPerDay := Some 0\<rparr>] =
   Some [\<lparr>date_entry = Instant 0, zoneId = ''test-zone-001'',
          cycles = [\<lparr>startTime = Instant (1065 / 4), durationMin = Num (469 / 5)\<rparr>],
          appliedDepthMm = Num 100, depletionBeforeMm = Num 50, depletionAfterMm = Num 0\<rparr>] \<and>
   resolvedSunrise ((createWeatherDay 0)\<lparr>evapotranspirationMmPerDay := Some 0\<rparr>) = 360 \<and>
   add_minute (Instant (1065 / 4)) (Num (469 / 5)) = Instant (7201 / 20) \<and>
   isBefore (Instant 360) (add_minute (Instant (1065 / 4)) (Num (469 / 5))) \<and>
   \<not> (isBefore (add_minute (Instant (1065 / 4)) (Num (469 / 5))) (Instant 360) \<or>
      isSame (add_minute (Instant (1065 / 4)) (Num (469 / 5))) (Instant 360))"
  by (simp add: fixture_simps)



text \<open>
  Claim C4. For a zone of non-zero efficiency, every emitted entry comes from a
  depletion \<open>d\<close> at trigger time whose gross depth is \<open>min (d / efficiency) TAW\<close>, at
  most TAW; the applied depth reported is that value rounded, and the depletion after
  irrigation is reported as 0, also when the cap applies.
\<close>

theorem gross_depth_capped:
  assumes "irrigationEfficiency z \<noteq> 0"
  shows "\<exists>es. planZoneSchedule z ws = Some es \<and>
           (\<forall>e\<in>set es. \<exists>d.
              readilyAvailableWaterMillimeters z \<le> d \<and>
              depletionBeforeMm e = roundTo1Decimal (Num d) \<and>
              grossIrrigationDepthMillimeters z d =
                Num (min (d / irrigationEfficiency z) (totalAvailableWaterMillimeters z)) \<and>
              appliedDepthMm e =
                roundTo1Decimal
                  (Num (min (d / irrigationEfficiency z) (totalAvailableWaterMillimeters z))) \<and>
              min (d / irrigationEfficiency z) (totalAvailableWaterMillimeters z)
                \<le> totalAvailableWaterMillimeters z \<and>
              depletionAfterMm e = Num 0)"
proof -
  from planZoneSchedule_emits [of z ws] obtain es
    where plan: "planZoneSchedule z ws = Some es"
      and em: "\<forall>e\<in>set es. \<exists>w\<in>set ws. emittedFor z w e" by blast
  have "\<exists>d. readilyAvailableWaterMillimeters z \<le> d \<and>
              depletionBeforeMm e = roundTo1Decimal (Num d) \<and>
              grossIrrigationDepthMillimeters z d =
                Num (min (d / irrigationEfficiency z) (totalAvailableWaterMillimeters z)) \<and>
              appliedDepthMm e =
                roundTo1Decimal
                  (Num (min (d / irrigationEfficiency z) (totalAvailableWaterMillimeters z))) \<and>
              min (d / irrigationEfficiency z) (totalAvailableWaterMillimeters z)
                \<le> totalAvailableWaterMillimeters z \<and>
              depletionAfterMm e = Num 0" if "e \<in> set es" for e
  proof -
    from em that obtain w where "emittedFor z w e" by blast
    then obtain d cs where d: "readilyAvailableWaterMillimeters z \<le> d"
      and shape: "e = \<lparr>date_entry = Instant (date w), zoneId = id_zone z, cycles = cs,
              appliedDepthMm = roundTo1Decimal (grossIrrigationDepthMillimeters z d),
              depletionBeforeMm = roundTo1Decimal (Num d),
              depletionAfterMm = roundTo1Decimal (Num 0)\<rparr>"
      by (rule emittedForE)
    have before: "depletionBeforeMm e = roundTo1Decimal (Num d)"
      and after: "depletionAfterMm e = Num 0"
      and applied: "appliedDepthMm e = roundTo1Decimal (grossIrrigationDepthMillimeters z d)"
      unfolding shape by (simp_all add: roundTo1Decimal_zero)
    show ?thesis
      using d before after applied gross_depth_finite [OF assms, of d]
      by (intro exI [of _ d]) simp
  qed
  with plan show ?thesis by blast
qed

theorem gross_depth_capped_witness:
  "irrigationEfficiency (createTestZone\<lparr>irrigationEfficiency := 0.5, currentDepletionMm := Some 40\<rparr>) \<noteq> 0 \<and>
   totalAvailableWaterMillimeters (createTestZone\<lparr>irrigationEfficiency := 0.5, currentDepletionMm := Some 40\<rparr>) = 45 \<and>
   grossIrrigationDepthMillimeters (createTestZone\<lparr>irrigationEfficiency := 0.5, currentDepletionMm := Some 40\<rparr>) 40 = Num 45 \<and>
   (\<exists>e. planZoneSchedule (createTestZone\<lparr>irrigationEfficiency := 0.5, currentDepletionMm := Some 40\<rparr>)
       [(createWeatherDay 0)\<lparr>evapotranspirationMmPerDay := Some 0\<rparr>] = Some [e] \<and>
     appliedDepthMm e = Num 45 \<and> depletionBeforeMm e = Num 40 \<and> depletionAfterMm e = Num 0)"
proof -
  let ?z = "createTestZone\<lparr>irrigationEfficiency := 0.5, currentDepletionMm := Some 40\<rparr>"
  let ?ws = "[(createWeatherDay 0)\<lparr>evapotranspirationMmPerDay := Some 0\<rparr>]"
  have eff: "irrigationEfficiency ?z \<noteq> 0" by simp
  have taw: "totalAvailableWaterMillimeters ?z = 45"
    by (simp add: createTestZone_def totalAvailableWaterMillimeters_def)
  have gross: "grossIrrigationDepthMillimeters ?z 40 = Num 45"
    by (simp add: createTestZone_def grossIrrigationDepthMillimeters_def
        totalAvailableWaterMillimeters_def)
  from gross_depth_capped [OF eff, of ?ws]
  obtain es where es: "planZoneSchedule ?z ?ws = Some es"
    and each: "\<forall>e\<in>set es. depletionAfterMm e = Num 0" by blast
  have run: "\<exists>e. planZoneSchedule ?z ?ws = Some [e] \<and>
      appliedDepthMm e = Num 45 \<and> depletionBeforeMm e = Num 40"
    by (simp add: fixture_simps)
  with es each have "\<exists>e. planZoneSchedule ?z ?ws = Some [e] \<and>
      appliedDepthMm e = Num 45 \<and> depletionBeforeMm e = Num 40 \<and> depletionAfterMm e = Num 0"
    by auto
  with eff taw gross show ?thesis by blast
qed


text \<open>
  Claim C6. For a zone whose TAW is not negative: the running depletion starts at the
  zone's current depletion clamped to \<open>[0, TAW]\<close> (0 when absent or negative, TAW when
  oversized); the depletion advanced within a day, and the running depletion after any
  sequence of days, lie in \<open>[0, TAW]\<close>; and every emitted entry reports the rounding of
  a depletion-before in \<open>[0, TAW]\<close> and the rounding of a depletion-after of 0.
\<close>

theorem depletion_within_bounds:
  assumes "0 \<le> totalAvailableWaterMillimeters z"
  shows "initialDepletionMillimeters z =
           (case currentDepletionMm z of
              None \<Rightarrow> 0
            | Some c \<Rightarrow>
                if c < 0 then 0
                else if totalAvailableWaterMillimeters z < c then totalAvailableWaterMillimeters z
                else c) \<and>
         0 \<le> advancedDepletion z d w \<and>
         advancedDepletion z d w \<le> totalAvailableWaterMillimeters z \<and>
         (\<exists>D es. weatherLoop z (initialDepletionMillimeters z, []) ws = Some (D, es) \<and>
            0 \<le> D \<and> D \<le> totalAvailableWaterMillimeters z \<and>
            planZoneSchedule z ws = Some (if isEnabled z = Some False then [] else es) \<and>
            (\<forall>e\<in>set es. \<exists>b.
               0 \<le> b \<and> b \<le> totalAvailableWaterMillimeters z \<and>
               depletionBeforeMm e = roundTo1Decimal (Num b) \<and>
               depletionAfterMm e = roundTo1Decimal (Num 0) \<and>
               depletionAfterMm e = Num 0))"
proof -
  have m: "max 0 (totalAvailableWaterMillimeters z) = totalAvailableWaterMillimeters z"
    using assms by simp
  have init: "initialDepletionMillimeters z =
           (case currentDepletionMm z of
              None \<Rightarrow> 0
            | Some c \<Rightarrow>
                if c < 0 then 0
                else if totalAvailableWaterMillimeters z < c then totalAvailableWaterMillimeters z
                else c)"
    using assms by (simp add: initialDepletionMillimeters_def clampValue_def split: option.split)
  from runningDepletion_bounds [of z ws] obtain D es
    where loop: "weatherLoop z (initialDepletionMillimeters z, []) ws = Some (D, es)"
      and D: "0 \<le> D" "D \<le> totalAvailableWaterMillimeters z"
      and em: "\<forall>e\<in>set es. \<exists>w\<in>set ws. emittedFor z w e"
    unfolding m by blast
  have plan: "planZoneSchedule z ws = Some (if isEnabled z = Some False then [] else es)"
    using loop by (simp add: planZoneSchedule_def)
  have each: "\<exists>b. 0 \<le> b \<and> b \<le> totalAvailableWaterMillimeters z \<and>
               depletionBeforeMm e = roundTo1Decimal (Num b) \<and>
               depletionAfterMm e = roundTo1Decimal (Num 0) \<and>
               depletionAfterMm e = Num 0" if "e \<in> set es" for e
  proof -
    from em that obtain w where "emittedFor z w e" by blast
    then obtain b cs where b: "0 \<le> b" "b \<le> max 0 (totalAvailableWaterMillimeters z)"
      and shape: "e = \<lparr>date_entry = Instant (date w), zoneId = id_zone z, cycles = cs,
              appliedDepthMm = roundTo1Decimal (grossIrrigationDepthMillimeters z b),
              depletionBeforeMm = roundTo1Decimal (Num b),
              depletionAfterMm = roundTo1Decimal (Num 0)\<rparr>"
      by (elim emittedForE)
    have "depletionBeforeMm e = roundTo1Decimal (Num b)"
      and "depletionAfterMm e = roundTo1Decimal (Num 0)"
      unfolding shape by simp_all
    with b show ?thesis unfolding m by (intro exI [of _ b]) (simp add: roundTo1Decimal_zero)
  qed
  have "0 \<le> advancedDepletion z d w" "advancedDepletion z d w \<le> totalAvailableWaterMillimeters z"
    using advancedDepletion_lower [of z d w] advancedDepletion_upper [of z d w]
    unfolding m by simp_all
  with init loop D plan each show ?thesis by blast
qed

theorem depletion_within_bounds_witness:
  "0 \<le> totalAvailableWaterMillimeters createTestZone \<and>
   totalAvailableWaterMillimeters (createTestZone\<lparr>currentDepletionMm := Some 100\<rparr>) = 45 \<and>
   initialDepletionMillimeters (createTestZone\<lparr>currentDepletionMm := Some 100\<rparr>) = 45 \<and>
   initialDepletionMillimeters (createTestZone\<lparr>currentDepletionMm := Some (- 10)\<rparr>) = 0 \<and>
   initialDepletionMillimeters (createTestZone\<lparr>currentDepletionMm := None\<rparr>) = 0 \<and>
   (\<exists>e. planZoneSchedule (createTestZone\<lparr>currentDepletionMm := Some 100\<rparr>)
          [(createWeatherDay 0)\<lparr>evapotranspirationMmPerDay := Some 0\<rparr>] = Some [e] \<and>
        depletionBeforeMm e = Num 45 \<and> depletionAfterMm e = Num 0)"
proof -
  have taw: "totalAvailableWaterMillimeters (createTestZone\<lparr>currentDepletionMm := c\<rparr>) = 45" for c
    by (simp add: createTestZone_def totalAvailableWaterMillimeters_def)
  then have pos: "0 \<le> totalAvailableWaterMillimeters (createTestZone\<lparr>currentDepletionMm := c\<rparr>)" for c
    by simp
  have "0 \<le> totalAvailableWaterMillimeters createTestZone"
    by (simp add: createTestZone_def totalAvailableWaterMillimeters_def)
  moreover have "initialDepletionMillimeters (createTestZone\<lparr>currentDepletionMm := Some 100\<rparr>) = 45"
    using depletion_within_bounds [OF pos [of "Some 100"]] by (simp add: taw)
  moreover have "initialDepletionMillimeters (createTestZone\<lparr>currentDepletionMm := Some (- 10)\<rparr>) = 0"
    using depletion_within_bounds [OF pos [of "Some (- 10)"]] by (simp add: taw)
  moreover have "initialDepletionMillimeters (createTestZone\<lparr>currentDepletionMm := None\<rparr>) = 0"
    using depletion_within_bounds [OF pos [of None]] by (simp add: taw)
  moreover have "\<exists>e. planZoneSchedule (createTestZone\<lparr>currentDepletionMm := Some 100\<rparr>)
          [(createWeatherDay 0)\<lparr>evapotranspirationMmPerDay := Some 0\<rparr>] = Some [e] \<and>
        depletionBeforeMm e = Num 45 \<and> depletionAfterMm e = Num 0"
    by (simp add: fixture_simps)
  ultimately show ?thesis using taw by blast
qed

text \<open>
  Claim C7. The seed scenario: the default zone with an initial depletion of 25 mm and
  seven dry days of 2.0 mm evapotranspiration yields exactly one entry, dated the first
  day, with depletion-before 26.7 and applied depth 33.4.
\<close>

theorem seed_single_event:
  "length (createDryPeriod 7 2.0 0) = 7 \<and>
   date (hd (createDryPeriod 7 2.0 0)) = 0 \<and>
   planZoneSchedule (createTestZone\<lparr>currentDepletionMm := Some 25\<rparr>)
       (createDryPeriod 7 2.0 0) =
     Some [\<lparr>date_entry = Instant 0, zoneId = ''test-zone-001'',
      cycles =
        [\<lparr>startTime = Instant (245 / 2), durationMin = Num (1113 / 10)\<rparr>,
         \<lparr>startTime = Instant (995 / 4), durationMin = Num (1113 / 10)\<rparr>],
      appliedDepthMm = Num 33.4, depletionBeforeMm = Num 26.7,
      depletionAfterMm = Num 0\<rparr>]"
  by (simp add: createDryPeriod_7 createTestZone_def scheduler_defs cycleLoop_step cycleLoop_exit)






text \<open>
  Claim C10. Every emitted entry reports the rounding of a depletion-before that is at
  least RAW; the reported value is within 0.05 of it, hence above RAW - 0.05.
\<close>

theorem depletion_before_at_least_RAW:
  "\<exists>es. planZoneSchedule z ws = Some es \<and>
     (\<forall>e\<in>set es. \<exists>d v.
        readilyAvailableWaterMillimeters z \<le> d \<and>
        depletionBeforeMm e = roundTo1Decimal (Num d) \<and>
        depletionBeforeMm e = Num v \<and>
        d - 1 / 20 < v \<and> v \<le> d + 1 / 20 \<and>
        readilyAvailableWaterMillimeters z - 1 / 20 < v)"
proof -
  from emitted_entry_shape [of z ws] obtain es
    where plan: "planZoneSchedule z ws = Some es"
      and each: "\<forall>e\<in>set es. \<exists>d. 0 \<le> d \<and> d \<le> max 0 (totalAvailableWaterMillimeters z) \<and>
        readilyAvailableWaterMillimeters z \<le> d \<and>
        appliedDepthMm e = roundTo1Decimal (grossIrrigationDepthMillimeters z d) \<and>
        depletionBeforeMm e = roundTo1Decimal (Num d) \<and>
        depletionAfterMm e = roundTo1Decimal (Num 0) \<and>
        (\<exists>w\<in>set ws. date_entry e = Instant (date w) \<and>
           buildCyclePlan (totalRunTimeMinutes z d) (maximumCycleMinutes z d)
             (Instant (resolvedSunrise w)) (Num (soakTimeMinutes z)) = Some (cycles e))"
    by blast
  have "\<exists>d v. readilyAvailableWaterMillimeters z \<le> d \<and>
        depletionBeforeMm e = roundTo1Decimal (Num d) \<and>
        depletionBeforeMm e = Num v \<and>
        d - 1 / 20 < v \<and> v \<le> d + 1 / 20 \<and>
        readilyAvailableWaterMillimeters z - 1 / 20 < v" if "e \<in> set es" for e
  proof -
    from each that obtain d where d: "readilyAvailableWaterMillimeters z \<le> d"
      and before: "depletionBeforeMm e = roundTo1Decimal (Num d)" by blast
    from roundTo1Decimal_near [of d] obtain v
      where v: "roundTo1Decimal (Num d) = Num v" "d - 1 / 20 < v" "v \<le> d + 1 / 20" by blast
    from d v(2) have "readilyAvailableWaterMillimeters z - 1 / 20 < v" by linarith
    with d before v show ?thesis by (intro exI [of _ d] exI [of _ v]) simp
  qed
  with plan show ?thesis by blast
qed

theorem depletion_before_at_least_RAW_witness:
  "readilyAvailableWaterMillimeters (createTestZone\<lparr>currentDepletionMm := Some (45 / 2)\<rparr>) = 45 / 2 \<and>
   (\<exists>e. planZoneSchedule (createTestZone\<lparr>currentDepletionMm := Some (45 / 2)\<rparr>)
          [(createWeatherDay 0)\<lparr>evapotranspirationMmPerDay := Some 0\<rparr>] = Some [e] \<and>
        depletionBeforeMm e = Num (45 / 2) \<and>
        (\<exists>d. readilyAvailableWaterMillimeters (createTestZone\<lparr>currentDepletionMm := Some (45 / 2)\<rparr>) \<le> d \<and>
             depletionBeforeMm e = roundTo1Decimal (Num d)))"
proof -
  let ?z = "createTestZone\<lparr>currentDepletionMm := Some (45 / 2)\<rparr>"
  let ?ws = "[(createWeatherDay 0)\<lparr>evapotranspirationMmPerDay := Some 0\<rparr>]"
  have raw: "readilyAvailableWaterMillimeters ?z = 45 / 2"
    by (simp add: createTestZone_def readilyAvailableWaterMillimeters_def
        totalAvailableWaterMillimeters_def)
  from depletion_before_at_least_RAW [of ?z ?ws]
  obtain es where es: "planZoneSchedule ?z ?ws = Some es"
    and each: "\<forall>e\<in>set es. \<exists>d. readilyAvailableWaterMillimeters ?z \<le> d \<and>
        depletionBeforeMm e = roundTo1Decimal (Num d)"
    by blast
  have run: "\<exists>e. planZoneSchedule ?z ?ws = Some [e] \<and> depletionBeforeMm e = Num (45 / 2)"
    by (simp add: fixture_simps)
  then obtain e where e: "planZoneSchedule ?z ?ws = Some [e]" "depletionBeforeMm e = Num (45 / 2)"
    by blast
  with es have "es = [e]" by simp
  then have "e \<in> set es" by simp
  with each have "\<exists>d. readilyAvailableWaterMillimeters ?z \<le> d \<and>
        depletionBeforeMm e = roundTo1Decimal (Num d)" by blast
  with e raw show ?thesis by blast
qed

end
